theory Spec2Isabelle
  imports Complex_Main "HOL-Library.Word"
begin

unbundle bit_operations_syntax

section \<open>PoStep256 register driver (postep256.py)\<close>

text \<open>
  The driver is a Python class whose only fields are the bus handle \<open>i2c_bus\<close> (or
  \<open>None\<close>) and the device address \<open>i2c_address\<close>. Every method talks to the device
  through two methods of the bus handle, \<open>write_i2c_block_data\<close> and
  \<open>read_i2c_block_data\<close>. The bus is outside the repository, so it is modelled by what
  it answers: each of the two methods is a function of the calls made so far and of its
  arguments. The list of calls made on the bus is threaded through every operation; it is
  what the statements about "transport calls" speak about.

  Python integers are \<open>int\<close>. A Python float that is an argument is a \<open>pyfloat\<close>:
  a finite value, an infinity or NaN. The rounding that a float operation applies to
  its exact result is a parameter \<open>rnd\<close> of the operations that compute with floats;
  the float results of the register reads are finite and are given as \<open>real\<close>. A Python exception is a value of \<open>exn\<close>, and a method that can
  let one escape returns \<open>exn + 'a\<close>.
\<close>

subsection \<open>Module constants\<close>

definition MAX_TEMP :: int where "MAX_TEMP = 120"
definition MAX_CURRENT :: real where "MAX_CURRENT = 6.0"
definition MAX_SPEED :: int where "MAX_SPEED = 60000"
definition MAX_ACCELERATION :: int where "MAX_ACCELERATION = 50000"
definition MAX_BUFFER_LENGTH :: int where "MAX_BUFFER_LENGTH = 5"

definition DRIVER_RUN :: int where "DRIVER_RUN = 0xda"
definition DRIVER_SLEEP :: int where "DRIVER_SLEEP = 0x0f"

definition MODE_DEFAULT :: int where "MODE_DEFAULT = 0x01"
definition MODE_POSITION_CONT :: int where "MODE_POSITION_CONT = 0x04"
definition MODE_BINX_BUTTONS :: int where "MODE_BINX_BUTTONS = 0x05"
definition MODE_AUTO :: int where "MODE_AUTO = 0x06"

subsection \<open>The bus and the session\<close>

type_synonym byte = "8 word"

text \<open>Exceptions that the modelled code can raise or receive from the bus.\<close>

datatype exn =
  AttributeError | TypeError | IndexError | ValueError | OverflowError | StructError | IOError

text \<open>
  One call on the bus handle: \<open>WriteBlock address register payload\<close> is
  \<open>write_i2c_block_data(address, register, payload)\<close> and
  \<open>ReadBlock address register length\<close> is \<open>read_i2c_block_data(address, register, length)\<close>.
  A call is recorded when it is made, whether it returns or raises.
\<close>

datatype call = WriteBlock int int "int list" | ReadBlock int int int

text \<open>
  The bus handle. \<open>write_i2c_block_data\<close> returns normally (\<open>None\<close>) or raises
  (\<open>Some e\<close>); \<open>read_i2c_block_data\<close> returns the bytes read or raises. Both see the
  calls made before, so a device with state is covered.
\<close>

record bus =
  write_i2c_block_data :: "call list \<Rightarrow> int \<Rightarrow> int \<Rightarrow> int list \<Rightarrow> exn option"
  read_i2c_block_data :: "call list \<Rightarrow> int \<Rightarrow> int \<Rightarrow> int \<Rightarrow> exn + byte list"

text \<open>The object: \<open>self.i2c_bus\<close> and \<open>self.i2c_address\<close>.\<close>

record session =
  i2c_bus :: "bus option"
  i2c_address :: int

text \<open>
  The \<open>buffer\<close> argument of \<open>write_data\<close> is either a list or some other value that the
  method wraps into a one-element list; the callers pass lists and integers.
\<close>

datatype pyarg = PyList "int list" | PyInt int

subsection \<open>write_data and read_data\<close>

text \<open>
  The body of the \<open>try\<close> of \<open>write_data\<close>. With \<open>i2c_bus = None\<close> the attribute lookup
  \<open>self.i2c_bus.write_i2c_block_data\<close> raises before any call is made.
\<close>

definition write_data_try ::
  "session \<Rightarrow> int \<Rightarrow> pyarg \<Rightarrow> call list \<Rightarrow> (exn + bool) \<times> call list" where
  "write_data_try self register buffer t =
     (if register < 0x01 \<or> register > 0x60 then (Inr False, t)
      else
        let buffer = (case buffer of PyList xs \<Rightarrow> xs | PyInt v \<Rightarrow> [v]) in
        case i2c_bus self of
          None \<Rightarrow> (Inl AttributeError, t)
        | Some b \<Rightarrow>
            (case write_i2c_block_data b t (i2c_address self) register buffer of
               Some e \<Rightarrow> (Inl e, t @ [WriteBlock (i2c_address self) register buffer])
             | None \<Rightarrow> (Inr True, t @ [WriteBlock (i2c_address self) register buffer])))"

text \<open>\<open>except Exception\<close>: every exception of the body becomes the result \<open>False\<close>.\<close>

definition write_data :: "session \<Rightarrow> int \<Rightarrow> pyarg \<Rightarrow> call list \<Rightarrow> bool \<times> call list" where
  "write_data self register buffer t =
     (case write_data_try self register buffer t of
        (Inr r, t') \<Rightarrow> (r, t')
      | (Inl e, t') \<Rightarrow> (False, t'))"

text \<open>
  The body of the \<open>try\<close> of \<open>read_data\<close>. After the two range checks \<open>length\<close> (here \<open>len\<close>) is at
  least 1, so \<open>if length:\<close> always takes its first branch. The bytes come back as Python
  integers in 0..255.
\<close>

definition read_data_try ::
  "session \<Rightarrow> int \<Rightarrow> int \<Rightarrow> call list \<Rightarrow> (exn + int list option) \<times> call list" where
  "read_data_try self register len t =
     (if register < 0x01 \<or> register > 0x60 then (Inr None, t)
      else if len < 1 \<or> len > MAX_BUFFER_LENGTH then (Inr None, t)
      else
        case i2c_bus self of
          None \<Rightarrow> (Inl AttributeError, t)
        | Some b \<Rightarrow>
            (case read_i2c_block_data b t (i2c_address self) register len of
               Inl e \<Rightarrow> (Inl e, t @ [ReadBlock (i2c_address self) register len])
             | Inr bs \<Rightarrow>
                 (Inr (Some (map uint bs)), t @ [ReadBlock (i2c_address self) register len])))"

definition read_data ::
  "session \<Rightarrow> int \<Rightarrow> int \<Rightarrow> call list \<Rightarrow> int list option \<times> call list" where
  "read_data self register len t =
     (case read_data_try self register len t of
        (Inr r, t') \<Rightarrow> (r, t')
      | (Inl e, t') \<Rightarrow> (None, t'))"

subsection \<open>convert_to_byte_buffer\<close>

text \<open>
  \<open>value >> 8 * 3\<close> is \<open>value >> 24\<close>: in Python the product binds tighter than the
  shift.
\<close>

definition convert_to_byte_buffer :: "int \<Rightarrow> int list" where
  "convert_to_byte_buffer v =
     (if v \<le> 255 then [v]
      else if v \<le> 65535 then
        (let msb = drop_bit 8 v;
             lsb = v AND 0xff
         in [msb, lsb])
      else if v \<le> 4294967295 then
        (let msb = drop_bit (8 * 3) v;
             remain1 = v AND 0xffffff;
             mid1 = drop_bit (8 * 2) remain1;
             remain2 = v AND 0xffff;
             mid2 = drop_bit 8 remain2;
             lsb = v AND 0xff
         in [msb, mid1, mid2, lsb])
      else [])"

subsection \<open>read_value and loopback_read\<close>

text \<open>
  \<open>read_value\<close> has no \<open>try\<close>: \<open>buffer[0]\<close> on an empty list raises IndexError to the
  caller. A failed read gives \<open>None\<close>, which is not a list and is returned as it is.
\<close>

definition read_value :: "session \<Rightarrow> int \<Rightarrow> call list \<Rightarrow> (exn + int option) \<times> call list" where
  "read_value self register t =
     (case write_data self register (PyList []) t of
        (write_res, t1) \<Rightarrow>
          if \<not> write_res then (Inr None, t1)
          else
            (case read_data self register 1 t1 of
               (None, t2) \<Rightarrow> (Inr None, t2)
             | (Some [], t2) \<Rightarrow> (Inl IndexError, t2)
             | (Some (x # xs), t2) \<Rightarrow> (Inr (Some x), t2)))"

text \<open>
  The body of the \<open>try\<close> of \<open>loopback_read\<close>: when the read failed, \<open>returned\<close> is
  \<open>None\<close> and the slice \<open>returned[1:]\<close> raises TypeError.
\<close>

definition loopback_read_try :: "session \<Rightarrow> call list \<Rightarrow> (exn + bool) \<times> call list" where
  "loopback_read_try self t =
     (let buff = [0x91, 0x92, 0x93, 0x94] in
      case write_data self 0x01 (PyList buff) t of
        (write_res, t1) \<Rightarrow>
          if \<not> write_res then (Inr False, t1)
          else
            (case read_data self 0x01 (int (length buff) + 1) t1 of
               (None, t2) \<Rightarrow> (Inl TypeError, t2)
             | (Some returned, t2) \<Rightarrow>
                 (let returned_buff = drop 1 returned in
                  if returned_buff = buff then (Inr True, t2) else (Inr False, t2))))"

text \<open>The bare \<open>except:\<close> turns every exception of the body into the result \<open>False\<close>.\<close>

definition loopback_read :: "session \<Rightarrow> call list \<Rightarrow> (exn + bool) \<times> call list" where
  "loopback_read self t =
     (case loopback_read_try self t of
        (Inr r, t') \<Rightarrow> (Inr r, t')
      | (Inl e, t') \<Rightarrow> (Inr False, t'))"

subsection \<open>Construction\<close>

text \<open>
  \<open>__init__\<close>. Its first argument is what \<open>smbus.SMBus(I2C_CHANNEL)\<close> does: it returns a
  bus handle or raises. When it raises, \<open>self.i2c_address\<close> is never assigned; the model
  keeps the requested address there, which no method reads while \<open>i2c_bus\<close> is \<open>None\<close>.
  A failed loopback test raises ValueError inside the \<open>try\<close>; both handlers set
  \<open>i2c_bus\<close> to \<open>None\<close> and return.
\<close>

definition PoStep256_init ::
  "(exn + bus) \<Rightarrow> int \<Rightarrow> call list \<Rightarrow> (exn + session) \<times> call list" where
  "PoStep256_init smbus address t =
     (case smbus of
        Inl e \<Rightarrow> (Inr \<lparr>i2c_bus = None, i2c_address = address\<rparr>, t)
      | Inr b \<Rightarrow>
          (let self = \<lparr>i2c_bus = Some b, i2c_address = address\<rparr> in
           case loopback_read self t of
             (Inl e, t') \<Rightarrow> (Inr (self\<lparr>i2c_bus := None\<rparr>), t')
           | (Inr ok, t') \<Rightarrow>
               if \<not> ok then (Inr (self\<lparr>i2c_bus := None\<rparr>), t')
               else (Inr self, t')))"

subsection \<open>Plain register writes\<close>

definition set_run_sleep_mode :: "session \<Rightarrow> int \<Rightarrow> call list \<Rightarrow> bool \<times> call list" where
  "set_run_sleep_mode self v t =
     (if v = DRIVER_SLEEP then write_data self 0x03 (PyInt v) t
      else if v = DRIVER_RUN then write_data self 0x03 (PyInt v) t
      else (False, t))"

definition set_address :: "session \<Rightarrow> int \<Rightarrow> int \<Rightarrow> call list \<Rightarrow> bool \<times> call list" where
  "set_address self cur new t =
     (if cur = new then (True, t)
      else if cur < 0x01 \<or> cur > 0x7f then (False, t)
      else if new < 0x01 \<or> new > 0x7f then (False, t)
      else write_data self 0x04 (PyList [cur, new]) t)"

definition set_zero :: "session \<Rightarrow> call list \<Rightarrow> bool \<times> call list" where
  "set_zero self t = write_data self 0x5e (PyList []) t"

definition stop :: "session \<Rightarrow> call list \<Rightarrow> bool \<times> call list" where
  "stop self t = write_data self 0x5f (PyList []) t"

definition system_reset :: "session \<Rightarrow> call list \<Rightarrow> bool \<times> call list" where
  "system_reset self t = write_data self 0x60 (PyList []) t"

definition reset_faults :: "session \<Rightarrow> call list \<Rightarrow> bool \<times> call list" where
  "reset_faults self t = write_data self 0x35 (PyList []) t"

definition write_settings_to_eeprom :: "session \<Rightarrow> call list \<Rightarrow> bool \<times> call list" where
  "write_settings_to_eeprom self t = write_data self 0x3f (PyList []) t"

text \<open>The results of \<open>stop\<close> and \<open>set_zero\<close> are dropped.\<close>

definition set_driver_mode :: "session \<Rightarrow> int \<Rightarrow> call list \<Rightarrow> bool \<times> call list" where
  "set_driver_mode self v t =
     (case stop self t of
        (_, t1) \<Rightarrow>
          (case set_zero self t1 of
             (_, t2) \<Rightarrow>
               if v = MODE_AUTO \<or> v = MODE_DEFAULT then write_data self 0x05 (PyInt v) t2
               else (False, t2)))"

definition set_pwm_motors ::
  "session \<Rightarrow> int \<Rightarrow> int \<Rightarrow> int \<Rightarrow> int \<Rightarrow> int \<Rightarrow> int \<Rightarrow> call list \<Rightarrow> bool \<times> call list" where
  "set_pwm_motors self motor1_freq motor2_freq motor1_duty_ccw motor1_duty_acw
       motor2_duty_ccw motor2_duty_acw t =
     write_data self 0x06
       (PyList [motor1_freq, motor2_freq, motor1_duty_ccw, motor1_duty_acw,
                motor2_duty_ccw, motor2_duty_acw]) t"

definition set_step_mode :: "session \<Rightarrow> int \<Rightarrow> call list \<Rightarrow> bool \<times> call list" where
  "set_step_mode self v t =
     (if v < 0 \<or> v > 8 then (False, t) else write_data self 0x33 (PyInt v) t)"

definition set_temperature_limit :: "session \<Rightarrow> int \<Rightarrow> call list \<Rightarrow> bool \<times> call list" where
  "set_temperature_limit self v t =
     (if v < 0 \<or> v > MAX_TEMP then (False, t) else write_data self 0x34 (PyInt v) t)"

subsection \<open>Register reads\<close>

definition read_hw_fw_info :: "session \<Rightarrow> call list \<Rightarrow> int list option \<times> call list" where
  "read_hw_fw_info self t =
     (case write_data self 0x0a (PyList []) t of
        (write_res, t1) \<Rightarrow>
          if \<not> write_res then (None, t1) else read_data self 0x0a 5 t1)"

text \<open>
  \<open>struct.unpack('h', bytes(buffer))\<close> and \<open>struct.unpack('i', bytes(buffer))\<close>, first
  element of the tuple. \<open>bytes(None)\<close> raises TypeError, \<open>bytes\<close> of a list with an
  element outside 0..255 raises ValueError, and \<open>unpack\<close> raises \<open>struct.error\<close> when the
  length is not 2 (not 4). The formats are in native byte order, taken as little-endian
  (the byte order of the Raspberry Pi the driver is written for).
\<close>

definition unpack_h :: "int list option \<Rightarrow> exn + int" where
  "unpack_h buffer =
     (case buffer of
        None \<Rightarrow> Inl TypeError
      | Some bs \<Rightarrow>
          if \<not> list_all (\<lambda>b. 0 \<le> b \<and> b < 256) bs then Inl ValueError
          else
            (case bs of
               [b0, b1] \<Rightarrow>
                 (let u = b0 + 256 * b1 in Inr (if u \<ge> 32768 then u - 65536 else u))
             | _ \<Rightarrow> Inl StructError))"

definition unpack_i :: "int list option \<Rightarrow> exn + int" where
  "unpack_i buffer =
     (case buffer of
        None \<Rightarrow> Inl TypeError
      | Some bs \<Rightarrow>
          if \<not> list_all (\<lambda>b. 0 \<le> b \<and> b < 256) bs then Inl ValueError
          else
            (case bs of
               [b0, b1, b2, b3] \<Rightarrow>
                 (let u = b0 + 256 * b1 + 65536 * b2 + 16777216 * b3
                  in Inr (if u \<ge> 2147483648 then u - 4294967296 else u))
             | _ \<Rightarrow> Inl StructError))"

text \<open>
  The float literal \<open>0.072\<close> is the rounded decimal, and the product of the integer
  with it is rounded once more.
\<close>

definition read_voltage ::
  "(real \<Rightarrow> real) \<Rightarrow> session \<Rightarrow> call list \<Rightarrow> (exn + real option) \<times> call list" where
  "read_voltage rnd self t =
     (case write_data self 0x10 (PyList []) t of
        (write_res, t1) \<Rightarrow>
          if \<not> write_res then (Inr None, t1)
          else
            (case read_data self 0x10 2 t1 of
               (buffer, t2) \<Rightarrow>
                 (case unpack_h buffer of
                    Inl e \<Rightarrow> (Inl e, t2)
                  | Inr x \<Rightarrow> (Inr (Some (rnd (real_of_int x * rnd 0.072))), t2))))"

definition read_temperature ::
  "(real \<Rightarrow> real) \<Rightarrow> session \<Rightarrow> call list \<Rightarrow> (exn + real option) \<times> call list" where
  "read_temperature rnd self t =
     (case write_data self 0x11 (PyList []) t of
        (write_res, t1) \<Rightarrow>
          if \<not> write_res then (Inr None, t1)
          else
            (case read_data self 0x11 2 t1 of
               (buffer, t2) \<Rightarrow>
                 (case unpack_h buffer of
                    Inl e \<Rightarrow> (Inl e, t2)
                  | Inr x \<Rightarrow> (Inr (Some (rnd (real_of_int x * rnd 0.125))), t2))))"

definition read_pin_statuses :: "session \<Rightarrow> call list \<Rightarrow> (exn + int option) \<times> call list" where
  "read_pin_statuses self t = read_value self 0x12 t"

definition read_driver_status :: "session \<Rightarrow> call list \<Rightarrow> (exn + int option) \<times> call list" where
  "read_driver_status self t = read_value self 0x13 t"

definition read_driver_mode :: "session \<Rightarrow> call list \<Rightarrow> (exn + int option) \<times> call list" where
  "read_driver_mode self t = read_value self 0x14 t"

text \<open>
  \<open>0.065 * buffer[0] / (2 ** buffer[1])\<close>: indexing \<open>None\<close> raises TypeError, a missing
  element IndexError. The elements are bytes (\<open>read_data\<close> returns \<open>map uint\<close> of the
  bytes read), so the exponent is not negative and \<open>2 ** buffer[1]\<close> is an integer.
\<close>

definition read_current ::
  "(real \<Rightarrow> real) \<Rightarrow> session \<Rightarrow> int \<Rightarrow> call list \<Rightarrow> (exn + real option) \<times> call list" where
  "read_current rnd self register t =
     (case write_data self register (PyList []) t of
        (write_res, t1) \<Rightarrow>
          if \<not> write_res then (Inr None, t1)
          else
            (case read_data self register 2 t1 of
               (None, t2) \<Rightarrow> (Inl TypeError, t2)
             | (Some [], t2) \<Rightarrow> (Inl IndexError, t2)
             | (Some [m], t2) \<Rightarrow> (Inl IndexError, t2)
             | (Some (m # e # rest), t2) \<Rightarrow>
                 (Inr (Some (rnd (rnd (rnd 0.065 * real_of_int m) / real_of_int (2 ^ nat e)))),
                  t2)))"

definition read_current_full_scale ::
  "(real \<Rightarrow> real) \<Rightarrow> session \<Rightarrow> call list \<Rightarrow> (exn + real option) \<times> call list" where
  "read_current_full_scale rnd self t = read_current rnd self 0x20 t"

definition read_current_idle ::
  "(real \<Rightarrow> real) \<Rightarrow> session \<Rightarrow> call list \<Rightarrow> (exn + real option) \<times> call list" where
  "read_current_idle rnd self t = read_current rnd self 0x21 t"

definition read_current_overheat ::
  "(real \<Rightarrow> real) \<Rightarrow> session \<Rightarrow> call list \<Rightarrow> (exn + real option) \<times> call list" where
  "read_current_overheat rnd self t = read_current rnd self 0x22 t"

text \<open>\<open>buffer & 0x0f\<close> with \<open>buffer = None\<close> raises TypeError: the method does not test it.\<close>

definition read_step_mode :: "session \<Rightarrow> call list \<Rightarrow> (exn + int) \<times> call list" where
  "read_step_mode self t =
     (case read_value self 0x23 t of
        (Inl e, t1) \<Rightarrow> (Inl e, t1)
      | (Inr None, t1) \<Rightarrow> (Inl TypeError, t1)
      | (Inr (Some buffer), t1) \<Rightarrow> (Inr (buffer AND 0x0f), t1))"

definition read_temperature_limit :: "session \<Rightarrow> call list \<Rightarrow> (exn + int option) \<times> call list" where
  "read_temperature_limit self t = read_value self 0x24 t"

definition read_faults :: "session \<Rightarrow> call list \<Rightarrow> (exn + int option) \<times> call list" where
  "read_faults self t = read_value self 0x25 t"

definition read_position :: "session \<Rightarrow> call list \<Rightarrow> (exn + int option) \<times> call list" where
  "read_position self t =
     (case write_data self 0x40 (PyList []) t of
        (write_res, t1) \<Rightarrow>
          if \<not> write_res then (Inr None, t1)
          else
            (case read_data self 0x40 4 t1 of
               (buffer, t2) \<Rightarrow>
                 (case unpack_i buffer of
                    Inl e \<Rightarrow> (Inl e, t2)
                  | Inr x \<Rightarrow> (Inr (Some x), t2))))"

definition read_speed :: "session \<Rightarrow> int \<Rightarrow> call list \<Rightarrow> (exn + int option) \<times> call list" where
  "read_speed self register t =
     (case write_data self register (PyList []) t of
        (write_res, t1) \<Rightarrow>
          if \<not> write_res then (Inr None, t1)
          else
            (case read_data self register 2 t1 of
               (buffer, t2) \<Rightarrow>
                 (case unpack_h buffer of
                    Inl e \<Rightarrow> (Inl e, t2)
                  | Inr x \<Rightarrow> (Inr (Some x), t2))))"

definition read_max_speed :: "session \<Rightarrow> call list \<Rightarrow> (exn + int option) \<times> call list" where
  "read_max_speed self t = read_speed self 0x41 t"

definition read_acceleration :: "session \<Rightarrow> call list \<Rightarrow> (exn + int option) \<times> call list" where
  "read_acceleration self t = read_speed self 0x42 t"

definition read_deceleration :: "session \<Rightarrow> call list \<Rightarrow> (exn + int option) \<times> call list" where
  "read_deceleration self t = read_speed self 0x43 t"

definition read_current_speed :: "session \<Rightarrow> call list \<Rightarrow> (exn + int option) \<times> call list" where
  "read_current_speed self t = read_speed self 0x44 t"

definition read_requested_speed :: "session \<Rightarrow> call list \<Rightarrow> (exn + int option) \<times> call list" where
  "read_requested_speed self t = read_speed self 0x45 t"

definition read_auto_run_invert_direction_status ::
  "session \<Rightarrow> call list \<Rightarrow> (exn + int option) \<times> call list" where
  "read_auto_run_invert_direction_status self t = read_value self 0x46 t"

subsection \<open>Currents\<close>

text \<open>
  A float argument: a finite value, \<open>inf\<close>, \<open>-inf\<close> or \<open>nan\<close>.
\<close>

datatype pyfloat = Finite real | PosInf | NegInf | NaN

text \<open>The largest finite float, \<open>(2 - 2 ** -52) * 2 ** 1023\<close>.\<close>

definition FLOAT_MAX :: real where
  "FLOAT_MAX = (2 ^ 53 - 1) * 2 ^ 971"

text \<open>
  The float result of an operation whose exact result is \<open>x\<close>: \<open>x\<close> rounded (\<open>rnd\<close>
  rounds as if the exponent had no upper limit), or an infinity when the rounded value
  is beyond the largest finite float.
\<close>

definition fl :: "(real \<Rightarrow> real) \<Rightarrow> real \<Rightarrow> pyfloat" where
  "fl rnd x =
     (if rnd x > FLOAT_MAX then PosInf
      else if rnd x < - FLOAT_MAX then NegInf
      else Finite (rnd x))"

text \<open>\<open>k * value\<close> for an integer \<open>k\<close> that is a float exactly (here 123).\<close>

fun int_times_float :: "(real \<Rightarrow> real) \<Rightarrow> int \<Rightarrow> pyfloat \<Rightarrow> pyfloat" where
  "int_times_float rnd k (Finite x) = fl rnd (real_of_int k * x)"
| "int_times_float rnd k PosInf = (if k > 0 then PosInf else if k < 0 then NegInf else NaN)"
| "int_times_float rnd k NegInf = (if k > 0 then NegInf else if k < 0 then PosInf else NaN)"
| "int_times_float rnd k NaN = NaN"

text \<open>
  \<open>value < c\<close> and \<open>value > c\<close> for a finite constant \<open>c\<close>: every comparison with
  NaN is False.
\<close>

fun float_lt :: "pyfloat \<Rightarrow> real \<Rightarrow> bool" where
  "float_lt (Finite x) c = (x < c)"
| "float_lt PosInf c = False"
| "float_lt NegInf c = True"
| "float_lt NaN c = False"

fun float_gt :: "pyfloat \<Rightarrow> real \<Rightarrow> bool" where
  "float_gt (Finite x) c = (x > c)"
| "float_gt PosInf c = True"
| "float_gt NegInf c = False"
| "float_gt NaN c = False"

text \<open>
  \<open>int(x)\<close> of a float: truncation towards zero; ValueError for NaN and OverflowError
  for an infinity.
\<close>

fun py_int :: "pyfloat \<Rightarrow> exn + int" where
  "py_int (Finite x) = Inr (if 0 \<le> x then \<lfloor>x\<rfloor> else \<lceil>x\<rceil>)"
| "py_int PosInf = Inl OverflowError"
| "py_int NegInf = Inl OverflowError"
| "py_int NaN = Inl ValueError"

text \<open>The \<open>while\<close> loop of \<open>set_current\<close>, on the pair \<open>(tq, ai)\<close>.\<close>

function set_current_while :: "int \<Rightarrow> int \<Rightarrow> int \<times> int" where
  "set_current_while tq ai =
     (if tq > 255 then set_current_while (drop_bit 1 tq) (ai - 1) else (tq, ai))"
  by pat_completeness auto
termination
  by (relation "measure (\<lambda>(tq, ai). nat tq)") (auto simp: drop_bit_eq_div)

declare set_current_while.simps [simp del]

text \<open>
  \<open>set_current\<close> has no \<open>try\<close>: an exception of \<open>int(123 * value)\<close> reaches the
  caller, before any call on the bus.
\<close>

definition set_current ::
  "(real \<Rightarrow> real) \<Rightarrow> session \<Rightarrow> int \<Rightarrow> pyfloat \<Rightarrow> call list \<Rightarrow> (exn + bool) \<times> call list" where
  "set_current rnd self register v t =
     (case py_int (int_times_float rnd 123 v) of
        Inl e \<Rightarrow> (Inl e, t)
      | Inr tq \<Rightarrow>
          (let ai = 3
           in case set_current_while tq ai of
                (tq, ai) \<Rightarrow>
                  (case write_data self register (PyList [tq, ai]) t of
                     (result, t') \<Rightarrow> (Inr result, t'))))"

definition set_current_full_scale ::
  "(real \<Rightarrow> real) \<Rightarrow> session \<Rightarrow> pyfloat \<Rightarrow> call list \<Rightarrow> (exn + bool) \<times> call list" where
  "set_current_full_scale rnd self v t =
     (if float_lt v 0.0 \<or> float_gt v MAX_CURRENT then (Inr False, t)
      else set_current rnd self 0x30 v t)"

definition set_current_idle ::
  "(real \<Rightarrow> real) \<Rightarrow> session \<Rightarrow> pyfloat \<Rightarrow> call list \<Rightarrow> (exn + bool) \<times> call list" where
  "set_current_idle rnd self v t =
     (if float_lt v 0.0 \<or> float_gt v MAX_CURRENT then (Inr False, t)
      else set_current rnd self 0x31 v t)"

definition set_current_overheat ::
  "(real \<Rightarrow> real) \<Rightarrow> session \<Rightarrow> pyfloat \<Rightarrow> call list \<Rightarrow> (exn + bool) \<times> call list" where
  "set_current_overheat rnd self v t =
     (if float_lt v 0.0 \<or> float_gt v MAX_CURRENT then (Inr False, t)
      else set_current rnd self 0x32 v t)"

subsection \<open>Position controller\<close>

text \<open>The loop \<open>while len(buffer) < 4: buffer.append(0)\<close> of \<open>set_position\<close>.\<close>

function set_position_while :: "int list \<Rightarrow> int list" where
  "set_position_while buffer =
     (if length buffer < 4 then set_position_while (buffer @ [0]) else buffer)"
  by pat_completeness auto
termination
  by (relation "measure (\<lambda>buffer. 4 - length buffer)") auto

declare set_position_while.simps [simp del]

text \<open>
  \<open>read_driver_mode\<close> can raise (see \<open>read_value\<close>); the exception passes through the
  three gated setters. \<open>cur_mode\<close> is an integer or \<open>None\<close>, and \<open>None\<close> differs from
  every mode constant.
\<close>

definition set_position :: "session \<Rightarrow> int \<Rightarrow> call list \<Rightarrow> (exn + bool) \<times> call list" where
  "set_position self v t =
     (case read_driver_mode self t of
        (Inl e, t1) \<Rightarrow> (Inl e, t1)
      | (Inr cur_mode, t1) \<Rightarrow>
          if cur_mode \<noteq> Some MODE_POSITION_CONT \<and> cur_mode \<noteq> Some MODE_BINX_BUTTONS
          then (Inr False, t1)
          else
            (let buffer = convert_to_byte_buffer v;
                 buffer = rev buffer;
                 buffer = set_position_while buffer
             in case write_data self 0x50 (PyList buffer) t1 of
                  (result, t2) \<Rightarrow> (Inr result, t2)))"

text \<open>
  \<open>set_speed\<close>. In the last branch the list is not empty and not of length 1, so it has
  2 or 4 elements and \<open>buff[1]\<close>, \<open>buff[0]\<close> exist.
\<close>

definition set_speed :: "session \<Rightarrow> int \<Rightarrow> int \<Rightarrow> call list \<Rightarrow> bool \<times> call list" where
  "set_speed self register v t =
     (let buff = convert_to_byte_buffer v in
      if buff = [] then (False, t)
      else
        (let new_buff = (if length buff = 1 then buff @ [0] else [buff ! 1, buff ! 0])
         in write_data self register (PyList new_buff) t))"

definition set_max_speed :: "session \<Rightarrow> int \<Rightarrow> call list \<Rightarrow> bool \<times> call list" where
  "set_max_speed self v t =
     (if v < 0 \<or> v > MAX_SPEED then (False, t) else set_speed self 0x51 v t)"

definition set_acceleration :: "session \<Rightarrow> int \<Rightarrow> call list \<Rightarrow> bool \<times> call list" where
  "set_acceleration self v t =
     (if v < 0 \<or> v > MAX_ACCELERATION then (False, t) else set_speed self 0x52 v t)"

definition set_deceleration :: "session \<Rightarrow> int \<Rightarrow> call list \<Rightarrow> bool \<times> call list" where
  "set_deceleration self v t =
     (if v < 0 \<or> v > MAX_ACCELERATION then (False, t) else set_speed self 0x53 v t)"

definition set_requested_speed ::
  "session \<Rightarrow> int \<Rightarrow> call list \<Rightarrow> (exn + bool) \<times> call list" where
  "set_requested_speed self v t =
     (case read_driver_mode self t of
        (Inl e, t1) \<Rightarrow> (Inl e, t1)
      | (Inr cur_mode, t1) \<Rightarrow>
          if cur_mode \<noteq> Some MODE_AUTO then (Inr False, t1)
          else if v < 0 \<or> v > MAX_SPEED then (Inr False, t1)
          else
            (case set_speed self 0x54 v t1 of
               (result, t2) \<Rightarrow> (Inr result, t2)))"

definition set_invert_direction ::
  "session \<Rightarrow> int \<Rightarrow> call list \<Rightarrow> (exn + bool) \<times> call list" where
  "set_invert_direction self v t =
     (case read_driver_mode self t of
        (Inl e, t1) \<Rightarrow> (Inl e, t1)
      | (Inr cur_mode, t1) \<Rightarrow>
          if cur_mode \<noteq> Some MODE_AUTO then (Inr False, t1)
          else if v < 0 \<or> v > 1 then (Inr False, t1)
          else
            (let buff = convert_to_byte_buffer v in
             if buff = [] then (Inr False, t1)
             else
               (case write_data self 0x55 (PyList buff) t1 of
                  (result, t2) \<Rightarrow> (Inr result, t2))))"

subsection \<open>Concrete buses for the examples\<close>

text \<open>
  A bus whose writes all succeed (\<open>writable\<close>) or all raise, and whose reads answer the
  loopback register 0x01 with the address byte followed by the probe pattern and every
  other register with the byte \<open>mode\<close>, repeated to the requested length.
\<close>

definition stub_bus :: "bool \<Rightarrow> byte \<Rightarrow> bus" where
  "stub_bus writable mode =
     \<lparr>write_i2c_block_data = (\<lambda>t a r p. if writable then None else Some IOError),
      read_i2c_block_data =
        (\<lambda>t a r n. if r = 0x01 then Inr [word_of_int a, 0x91, 0x92, 0x93, 0x94]
                    else Inr (replicate (nat n) mode))\<rparr>"

definition stub_session :: "bool \<Rightarrow> byte \<Rightarrow> session" where
  "stub_session writable mode = \<lparr>i2c_bus = Some (stub_bus writable mode), i2c_address = 0x0a\<rparr>"

text \<open>The session after \<open>__init__\<close> (it never raises, see below).\<close>

definition constructed :: "(exn + session) \<times> call list \<Rightarrow> session" where
  "constructed r = (case fst r of Inr self \<Rightarrow> self | Inl e \<Rightarrow> \<lparr>i2c_bus = None, i2c_address = 0\<rparr>)"

section \<open>Properties\<close>

lemmas consts_defs =
  MAX_TEMP_def MAX_CURRENT_def MAX_SPEED_def MAX_ACCELERATION_def MAX_BUFFER_LENGTH_def
  DRIVER_RUN_def DRIVER_SLEEP_def MODE_DEFAULT_def MODE_POSITION_CONT_def
  MODE_BINX_BUTTONS_def MODE_AUTO_def

subsection \<open>Bit operations on Python integers\<close>

lemma and_0xff: "(v::int) AND 0xff = v mod 256"
  using take_bit_eq_mask [of 8 v, symmetric]
  by (simp add: take_bit_eq_mod mask_eq_exp_minus_1)

lemma and_0xffff: "(v::int) AND 0xffff = v mod 65536"
  using take_bit_eq_mask [of 16 v, symmetric]
  by (simp add: take_bit_eq_mod mask_eq_exp_minus_1)

lemma and_0xffffff: "(v::int) AND 0xffffff = v mod 16777216"
  using take_bit_eq_mask [of 24 v, symmetric]
  by (simp add: take_bit_eq_mod mask_eq_exp_minus_1)

lemmas bit_arith = and_0xff and_0xffff and_0xffffff drop_bit_eq_div

subsection \<open>write_data and read_data\<close>

lemma write_data_no_bus: "i2c_bus self = None \<Longrightarrow> write_data self register buffer t = (False, t)"
  by (simp add: write_data_def write_data_try_def)

lemma read_data_no_bus: "i2c_bus self = None \<Longrightarrow> read_data self register len t = (None, t)"
  by (simp add: read_data_def read_data_try_def)

lemma write_data_bus:
  assumes "i2c_bus self = Some b" "0x01 \<le> register" "register \<le> 0x60"
  shows "write_data self register (PyList xs) t =
           (write_i2c_block_data b t (i2c_address self) register xs = None,
            t @ [WriteBlock (i2c_address self) register xs])"
  using assms by (simp add: write_data_def write_data_try_def Let_def split: option.split)

lemma write_data_bus_int:
  assumes "i2c_bus self = Some b" "0x01 \<le> register" "register \<le> 0x60"
  shows "write_data self register (PyInt x) t =
           (write_i2c_block_data b t (i2c_address self) register [x] = None,
            t @ [WriteBlock (i2c_address self) register [x]])"
  using assms by (simp add: write_data_def write_data_try_def Let_def split: option.split)

lemma read_data_bus:
  assumes "i2c_bus self = Some b" "0x01 \<le> register" "register \<le> 0x60" "1 \<le> len" "len \<le> 5"
  shows "read_data self register len t =
           (case read_i2c_block_data b t (i2c_address self) register len of
              Inl e \<Rightarrow> None | Inr bs \<Rightarrow> Some (map uint bs),
            t @ [ReadBlock (i2c_address self) register len])"
  using assms
  by (simp add: read_data_def read_data_try_def MAX_BUFFER_LENGTH_def split: sum.split)

lemma read_value_no_bus: "i2c_bus self = None \<Longrightarrow> read_value self register t = (Inr None, t)"
  by (simp add: read_value_def write_data_no_bus)

subsection \<open>The byte-buffer encoder\<close>

text \<open>
  C4. For every integer \<open>v\<close> in [0, 255] the encoder returns \<open>[v]\<close>. For every \<open>v\<close> in
  [256, 65535] it returns \<open>[v >> 8, v & 0xFF]\<close>, both elements are bytes, and reading
  them as a big-endian number (first byte times 256 plus second byte) gives \<open>v\<close> back.
  For every \<open>v\<close> above 4294967295 it returns the empty list.
\<close>

theorem convert_to_byte_buffer_cases:
  "(0 \<le> v \<and> v \<le> 255 \<longrightarrow> convert_to_byte_buffer v = [v]) \<and>
   (256 \<le> v \<and> v \<le> 65535 \<longrightarrow>
      convert_to_byte_buffer v = [drop_bit 8 v, v AND 0xff] \<and>
      0 \<le> drop_bit 8 v \<and> drop_bit 8 v \<le> 255 \<and>
      0 \<le> v AND 0xff \<and> v AND 0xff \<le> 255 \<and>
      256 * drop_bit 8 v + (v AND 0xff) = v) \<and>
   (v > 4294967295 \<longrightarrow> convert_to_byte_buffer v = [])"
proof (intro conjI impI)
  assume "0 \<le> v \<and> v \<le> 255"
  then show "convert_to_byte_buffer v = [v]"
    by (simp add: convert_to_byte_buffer_def)
next
  assume r: "256 \<le> v \<and> v \<le> 65535"
  then show "convert_to_byte_buffer v = [drop_bit 8 v, v AND 0xff]"
    by (simp add: convert_to_byte_buffer_def)
  from r have "0 \<le> v div 256" "v div 256 \<le> 255"
    by arith+
  then show "0 \<le> drop_bit 8 v" "drop_bit 8 v \<le> 255"
    by (simp_all add: drop_bit_eq_div)
  show "0 \<le> v AND 0xff" "v AND 0xff \<le> 255"
    by (simp_all add: and_0xff)
  show "256 * drop_bit 8 v + (v AND 0xff) = v"
    by (simp add: bit_arith)
next
  assume "v > 4294967295"
  then show "convert_to_byte_buffer v = []"
    by (simp add: convert_to_byte_buffer_def)
qed

theorem convert_to_byte_buffer_cases_witness:
  "convert_to_byte_buffer 7 = [7] \<and>
   convert_to_byte_buffer 1000 = [3, 232] \<and> 256 * 3 + 232 = (1000::int) \<and>
   convert_to_byte_buffer 4294967296 = []"
  using convert_to_byte_buffer_cases [of 7] convert_to_byte_buffer_cases [of 1000]
    convert_to_byte_buffer_cases [of 4294967296]
  by (simp add: bit_arith)

subsection \<open>The example buses\<close>

lemma stub_session_sel [simp]:
  "i2c_bus (stub_session w m) = Some (stub_bus w m)"
  "i2c_address (stub_session w m) = 0x0a"
  by (simp_all add: stub_session_def)

lemma stub_bus_sel [simp]:
  "write_i2c_block_data (stub_bus w m) t a r p = (if w then None else Some IOError)"
  "read_i2c_block_data (stub_bus w m) t a r n =
     (if r = 0x01 then Inr [word_of_int a, 0x91, 0x92, 0x93, 0x94]
      else Inr (replicate (nat n) m))"
  by (simp_all add: stub_bus_def)

subsection \<open>Address change\<close>

text \<open>
  C10. For every address \<open>a\<close>, \<open>set_address(a, a)\<close> returns True and makes no transport
  call, whatever \<open>a\<close> is. Two different addresses are range-checked: if either lies
  outside [0x01, 0x7F] the result is False and no transport call is made; if both lie
  inside, the result is that of the write of \<open>[cur, new]\<close> to register 0x04.
\<close>

theorem set_address_equal_or_checked:
  "set_address self a a t = (True, t) \<and>
   (cur \<noteq> new \<and> (cur < 0x01 \<or> cur > 0x7f \<or> new < 0x01 \<or> new > 0x7f) \<longrightarrow>
      set_address self cur new t = (False, t)) \<and>
   (cur \<noteq> new \<and> 0x01 \<le> cur \<and> cur \<le> 0x7f \<and> 0x01 \<le> new \<and> new \<le> 0x7f \<longrightarrow>
      set_address self cur new t = write_data self 0x04 (PyList [cur, new]) t)"
  by (auto simp: set_address_def)

theorem set_address_equal_or_checked_witness:
  "set_address (stub_session True 1) 200 200 [] = (True, []) \<and>
   set_address (stub_session True 1) 0 5 [] = (False, []) \<and>
   set_address (stub_session True 1) 5 6 [] = (True, [WriteBlock 0x0a 0x04 [5, 6]])"
  using set_address_equal_or_checked [of "stub_session True 1" 200 "[]" 0 5]
    set_address_equal_or_checked [of "stub_session True 1" 200 "[]" 5 6]
  by (simp add: write_data_bus)

subsection \<open>Mode change\<close>

text \<open>
  C3. On a session that has a bus, \<open>set_driver_mode(MODE_AUTO)\<close> makes exactly three
  transport calls, all writes, in this order: register 0x5F with no payload (stop),
  register 0x5E with no payload (zero), register 0x05 with payload \<open>[0x06]\<close>. This holds
  for every bus, so also for one whose stop and zero writes raise; the result is the
  success of the third write alone.
\<close>

theorem set_driver_mode_auto_writes:
  assumes "i2c_bus self = Some b"
  shows "set_driver_mode self MODE_AUTO t =
           (write_i2c_block_data b
              (t @ [WriteBlock (i2c_address self) 0x5f [], WriteBlock (i2c_address self) 0x5e []])
              (i2c_address self) 0x05 [0x06] = None,
            t @ [WriteBlock (i2c_address self) 0x5f [], WriteBlock (i2c_address self) 0x5e [],
                 WriteBlock (i2c_address self) 0x05 [0x06]])"
  using assms
  by (simp add: set_driver_mode_def stop_def set_zero_def MODE_AUTO_def
      write_data_bus write_data_bus_int)

theorem set_driver_mode_auto_writes_witness:
  "fst (stop (stub_session False 1) []) = False \<and>
   fst (set_zero (stub_session False 1) [WriteBlock 0x0a 0x5f []]) = False \<and>
   set_driver_mode (stub_session False 1) MODE_AUTO [] =
     (False, [WriteBlock 0x0a 0x5f [], WriteBlock 0x0a 0x5e [], WriteBlock 0x0a 0x05 [0x06]])"
  using set_driver_mode_auto_writes [of "stub_session False 1" "stub_bus False 1" "[]"]
  by (simp add: stop_def set_zero_def write_data_bus)

subsection \<open>Loopback self-test\<close>

text \<open>
  C6. \<open>loopback_read\<close> returns True exactly when the session has a bus, the write of
  \<open>[0x91, 0x92, 0x93, 0x94]\<close> to register 0x01 returns normally, and the following read
  of 5 bytes from register 0x01 returns bytes of which those after the first are
  \<open>[0x91, 0x92, 0x93, 0x94]\<close>. In every other case it returns False; it never raises.
\<close>

theorem loopback_read_iff:
  "(fst (loopback_read self t) = Inr True \<or> fst (loopback_read self t) = Inr False) \<and>
   (fst (loopback_read self t) = Inr True \<longleftrightarrow>
      (\<exists>b bs. i2c_bus self = Some b \<and>
         write_i2c_block_data b t (i2c_address self) 0x01 [0x91, 0x92, 0x93, 0x94] = None \<and>
         read_i2c_block_data b
           (t @ [WriteBlock (i2c_address self) 0x01 [0x91, 0x92, 0x93, 0x94]])
           (i2c_address self) 0x01 5 = Inr bs \<and>
         drop 1 (map uint bs) = [0x91, 0x92, 0x93, 0x94]))"
proof (cases "i2c_bus self")
  case None
  then show ?thesis
    by (simp add: loopback_read_def loopback_read_try_def write_data_no_bus Let_def)
next
  case (Some b)
  then show ?thesis
    by (auto simp: loopback_read_def loopback_read_try_def write_data_bus read_data_bus
        Let_def split: sum.splits)
qed

theorem loopback_read_iff_witness:
  "fst (loopback_read (stub_session True 1) []) = Inr True \<and>
   fst (loopback_read (stub_session False 1) []) = Inr False"
  using loopback_read_iff [of "stub_session True 1" "[]"]
    loopback_read_iff [of "stub_session False 1" "[]"]
  by auto

subsection \<open>Current encoding\<close>

text \<open>
  What the loop of \<open>set_current\<close> returns, for every start: the mantissa is the start
  value shifted right once per decrement of the exponent, it is at most 255, and at
  every exponent above the returned one (up to the start exponent) the shifted value
  is still above 255.
\<close>

lemma set_current_while_result:
  "set_current_while tq ai = (m, e) \<Longrightarrow>
     e \<le> ai \<and> m = tq div 2 ^ nat (ai - e) \<and> m \<le> 255 \<and>
     (\<forall>e'. e < e' \<and> e' \<le> ai \<longrightarrow> 255 < tq div 2 ^ nat (ai - e'))"
proof (induction tq ai arbitrary: m e rule: set_current_while.induct)
  case (1 tq ai)
  show ?case
  proof (cases "tq > 255")
    case False
    with "1.prems" show ?thesis
      by (simp add: set_current_while.simps)
  next
    case True
    with "1.prems" have rec: "set_current_while (drop_bit 1 tq) (ai - 1) = (m, e)"
      by (simp add: set_current_while.simps)
    from "1.IH" [OF True rec]
    have le: "e \<le> ai - 1"
      and m: "m = drop_bit 1 tq div 2 ^ nat (ai - 1 - e)"
      and small: "m \<le> 255"
      and above: "\<forall>e'. e < e' \<and> e' \<le> ai - 1 \<longrightarrow> 255 < drop_bit 1 tq div 2 ^ nat (ai - 1 - e')"
      by simp_all
    have shift: "drop_bit 1 tq div 2 ^ nat (ai - 1 - k) = tq div 2 ^ nat (ai - k)"
      if "k \<le> ai - 1" for k
    proof -
      from that have "nat (ai - k) = Suc (nat (ai - 1 - k))"
        by simp
      then show ?thesis
        by (simp add: drop_bit_eq_div zdiv_zmult2_eq)
    qed
    have "\<forall>e'. e < e' \<and> e' \<le> ai \<longrightarrow> 255 < tq div 2 ^ nat (ai - e')"
    proof (intro allI impI)
      fix e'
      assume e': "e < e' \<and> e' \<le> ai"
      show "255 < tq div 2 ^ nat (ai - e')"
      proof (cases "e' = ai")
        case True
        with \<open>tq > 255\<close> show ?thesis by simp
      next
        case False
        with e' have "e' \<le> ai - 1" by simp
        with e' above shift [of e'] show ?thesis by auto
      qed
    qed
    with le m small shift [of e] show ?thesis
      by simp
  qed
qed

lemma py_int_nonneg: "0 \<le> x \<Longrightarrow> py_int (Finite x) = Inr \<lfloor>x\<rfloor>"
  by simp

text \<open>A rounded value of magnitude up to 738 is far below the largest finite float.\<close>

lemma FLOAT_MAX_ge: "738 \<le> FLOAT_MAX"
proof -
  have "(1::real) \<le> 2 ^ 971"
    by (rule one_le_power) simp
  moreover have "(738::real) \<le> 2 ^ 53 - 1"
    by simp
  ultimately have "(738::real) * 1 \<le> (2 ^ 53 - 1) * 2 ^ 971"
    by (intro mult_mono) simp_all
  then show ?thesis
    by (simp add: FLOAT_MAX_def)
qed

lemma fl_finite: "\<bar>rnd x\<bar> \<le> 738 \<Longrightarrow> fl rnd x = Finite (rnd x)"
  using FLOAT_MAX_ge by (auto simp: fl_def)

text \<open>
  A rounding that is monotone and leaves 0 and 738 as they are (both are floats) keeps
  the product \<open>123 * amps\<close> within [0, 738] for \<open>amps\<close> in [0, 6].
\<close>

lemma rounded_product_bounds:
  fixes amps :: real and rnd :: "real \<Rightarrow> real"
  assumes "0 \<le> amps" "amps \<le> 6" "mono rnd" "rnd 0 = 0" "rnd 738 = 738"
  shows "0 \<le> rnd (123 * amps)" "rnd (123 * amps) \<le> 738"
proof -
  from assms(1) have "rnd 0 \<le> rnd (123 * amps)"
    by (intro monoD [OF assms(3)]) simp
  with assms(4) show "0 \<le> rnd (123 * amps)"
    by simp
  from assms(2) have "rnd (123 * amps) \<le> rnd 738"
    by (intro monoD [OF assms(3)]) simp
  with assms(5) show "rnd (123 * amps) \<le> 738"
    by simp
qed

text \<open>
  C1 (amended). For every current \<open>amps\<close> in [0.0, 6.0], \<open>set_current\<close> starts from the
  mantissa \<open>int(123 * amps)\<close>, the float product truncated towards zero (its floor, as
  the product is not negative), and from the exponent 3, and runs the halving loop. On a
  session with a bus and for a register in [0x01, 0x60] it makes exactly one transport
  call, the write of the payload \<open>[mantissa, exponent]\<close>. The mantissa written is the
  start value shifted right by \<open>3 - exponent\<close> and lies in [0, 255], the exponent lies in
  [1, 3], and it is the largest exponent up to 3 at which the shifted start value fits
  in a byte. The float product is the exact product rounded by \<open>rnd\<close>, any monotone
  rounding that keeps 0 and 738; \<open>amps\<close> in [0.0, 6.0] is a finite float.
\<close>

theorem set_current_encoding:
  assumes "0 \<le> amps" "amps \<le> 6"
    and "mono rnd" "rnd 0 = 0" "rnd 738 = 738"
    and "i2c_bus self = Some b" "0x01 \<le> register" "register \<le> 0x60"
  shows "\<exists>m e. set_current_while \<lfloor>rnd (123 * amps)\<rfloor> 3 = (m, e) \<and>
           set_current rnd self register (Finite amps) t =
             (Inr (write_i2c_block_data b t (i2c_address self) register [m, e] = None),
              t @ [WriteBlock (i2c_address self) register [m, e]]) \<and>
           0 \<le> m \<and> m \<le> 255 \<and> 1 \<le> e \<and> e \<le> 3 \<and>
           m = \<lfloor>rnd (123 * amps)\<rfloor> div 2 ^ nat (3 - e) \<and>
           (\<forall>e'. e < e' \<and> e' \<le> 3 \<longrightarrow> 255 < \<lfloor>rnd (123 * amps)\<rfloor> div 2 ^ nat (3 - e'))"
proof -
  define tq where "tq = \<lfloor>rnd (123 * amps)\<rfloor>"
  from rounded_product_bounds [OF assms(1-5)]
  have tq_bounds: "0 \<le> tq" "tq \<le> 738"
    by (simp_all add: tq_def floor_le_iff le_floor_iff)
  have tq_int: "py_int (fl rnd (123 * amps)) = Inr tq"
    using rounded_product_bounds [OF assms(1-5)] by (simp add: fl_finite tq_def)
  obtain m e where loop: "set_current_while tq 3 = (m, e)"
    by (cases "set_current_while tq 3")
  from set_current_while_result [OF loop]
  have e3: "e \<le> 3"
    and m: "m = tq div 2 ^ nat (3 - e)"
    and small: "m \<le> 255"
    and above: "\<forall>e'. e < e' \<and> e' \<le> 3 \<longrightarrow> 255 < tq div 2 ^ nat (3 - e')"
    by simp_all
  have e1: "1 \<le> e"
  proof (rule ccontr)
    assume "\<not> 1 \<le> e"
    with above [rule_format, of 1] have "255 < tq div 2 ^ nat (3 - 1)"
      by simp
    with tq_bounds show False
      by simp
  qed
  from m tq_bounds have m0: "0 \<le> m"
    by (simp add: pos_imp_zdiv_nonneg_iff)
  have "set_current rnd self register (Finite amps) t =
          (Inr (write_i2c_block_data b t (i2c_address self) register [m, e] = None),
           t @ [WriteBlock (i2c_address self) register [m, e]])"
    using loop assms(6-8) by (simp add: set_current_def tq_int write_data_bus)
  with loop e1 e3 m m0 small above show ?thesis
    unfolding tq_def by blast
qed

theorem set_current_encoding_witness:
  "set_current (\<lambda>x. x) (stub_session True 1) 0x30 (Finite (1 / 2)) [] =
     (Inr True, [WriteBlock 0x0a 0x30 [61, 3]]) \<and>
   set_current (\<lambda>x. x) (stub_session True 1) 0x30 (Finite 6) [] =
     (Inr True, [WriteBlock 0x0a 0x30 [184, 1]])"
  using set_current_encoding
      [of "1 / 2" "\<lambda>x. x" "stub_session True 1" "stub_bus True 1" "0x30" "[]"]
    set_current_encoding
      [of 6 "\<lambda>x. x" "stub_session True 1" "stub_bus True 1" "0x30" "[]"]
  by (auto simp: mono_def set_current_while.simps drop_bit_eq_div)

text \<open>
  The claim as stated, with the mantissa \<open>round(123 * amps)\<close>, fails at
  \<open>amps = 0.5\<close>: the product 61.5 is a float, so no rounding takes place; the code
  writes the mantissa 61, and 61.5 rounded is 62.
\<close>

theorem set_current_round_counterexample:
  "snd (set_current (\<lambda>x. x) (stub_session True 1) 0x30 (Finite (1 / 2)) []) =
     [WriteBlock 0x0a 0x30 [61, 3]] \<and>
   round (123 * (1 / 2) :: real) = 62 \<and>
   snd (set_current (\<lambda>x. x) (stub_session True 1) 0x30 (Finite (1 / 2)) []) \<noteq>
     [WriteBlock 0x0a 0x30 [round (123 * (1 / 2) :: real), 3]]"
  by (simp add: set_current_def fl_finite set_current_while.simps write_data_bus round_def)

subsection \<open>The mode query\<close>

text \<open>
  \<open>read_value\<close> on a session with a bus: the register-select write with an empty
  payload, then, if that write returned, the read of one byte.
\<close>

lemma read_value_bus:
  assumes "i2c_bus self = Some b" "0x01 \<le> register" "register \<le> 0x60"
  shows "read_value self register t =
     (if write_i2c_block_data b t (i2c_address self) register [] \<noteq> None
      then (Inr None, t @ [WriteBlock (i2c_address self) register []])
      else
        (case read_i2c_block_data b (t @ [WriteBlock (i2c_address self) register []])
                (i2c_address self) register 1 of
           Inl e \<Rightarrow> Inr None
         | Inr [] \<Rightarrow> Inl IndexError
         | Inr (x # xs) \<Rightarrow> Inr (Some (uint x)),
         t @ [WriteBlock (i2c_address self) register [],
              ReadBlock (i2c_address self) register 1]))"
  using assms
  by (simp add: read_value_def write_data_bus read_data_bus split: sum.split list.split)

lemma read_value_Some_bus:
  assumes "fst (read_value self register t) = Inr (Some x)"
  shows "\<exists>b. i2c_bus self = Some b"
proof (cases "i2c_bus self")
  case None
  with assms show ?thesis
    by (simp add: read_value_no_bus)
next
  case (Some b)
  then show ?thesis
    by simp
qed

lemma read_driver_mode_calls:
  "snd (read_driver_mode self t) = t \<or>
   snd (read_driver_mode self t) = t @ [WriteBlock (i2c_address self) 0x14 []] \<or>
   snd (read_driver_mode self t) =
     t @ [WriteBlock (i2c_address self) 0x14 [], ReadBlock (i2c_address self) 0x14 1]"
proof (cases "i2c_bus self")
  case None
  then show ?thesis
    by (simp add: read_driver_mode_def read_value_no_bus)
next
  case (Some b)
  then show ?thesis
    by (simp add: read_driver_mode_def read_value_bus)
qed

lemma read_driver_mode_bus_calls:
  assumes "i2c_bus self = Some b"
  shows "\<exists>cs. snd (read_driver_mode self t) = t @ WriteBlock (i2c_address self) 0x14 [] # cs"
  using assms by (simp add: read_driver_mode_def read_value_bus)

lemma set_requested_speed_extends:
  "\<exists>cs. snd (set_requested_speed self v t) = snd (read_driver_mode self t) @ cs"
  by (cases "read_driver_mode self t")
    (auto simp: set_requested_speed_def set_speed_def write_data_def write_data_try_def
      Let_def split: sum.split option.split prod.split)

text \<open>
  C5 (amended). Whenever the mode query of \<open>set_requested_speed(v)\<close> returns anything
  but \<open>MODE_AUTO\<close> (another mode, or \<open>None\<close> for a failed query), the operation returns
  False and its only transport calls are those of the mode query itself: at most the
  register-select write to register 0x14 with an empty payload followed by the 1-byte
  read of register 0x14. Nothing is written to register 0x54. The mode is asked from the
  device on every call: on a session with a bus every call, whatever \<open>v\<close> and the calls
  before, first makes the register-select write to register 0x14.
\<close>

theorem set_requested_speed_gate:
  assumes "fst (read_driver_mode self t) = Inr cur_mode" "cur_mode \<noteq> Some MODE_AUTO"
  shows "set_requested_speed self v t = (Inr False, snd (read_driver_mode self t)) \<and>
         (snd (set_requested_speed self v t) = t \<or>
          snd (set_requested_speed self v t) = t @ [WriteBlock (i2c_address self) 0x14 []] \<or>
          snd (set_requested_speed self v t) =
            t @ [WriteBlock (i2c_address self) 0x14 [], ReadBlock (i2c_address self) 0x14 1]) \<and>
         (\<forall>b v' t'. i2c_bus self = Some b \<longrightarrow>
            (\<exists>cs. snd (set_requested_speed self v' t') =
               t' @ WriteBlock (i2c_address self) 0x14 [] # cs))"
proof (intro conjI allI impI)
  from assms show res: "set_requested_speed self v t = (Inr False, snd (read_driver_mode self t))"
    by (cases "read_driver_mode self t") (simp add: set_requested_speed_def)
  from read_driver_mode_calls [of self t]
  show "snd (set_requested_speed self v t) = t \<or>
        snd (set_requested_speed self v t) = t @ [WriteBlock (i2c_address self) 0x14 []] \<or>
        snd (set_requested_speed self v t) =
          t @ [WriteBlock (i2c_address self) 0x14 [], ReadBlock (i2c_address self) 0x14 1]"
    by (simp add: res)
next
  fix b v' t'
  assume "i2c_bus self = Some b"
  from read_driver_mode_bus_calls [OF this, of t'] set_requested_speed_extends [of self v' t']
  show "\<exists>cs. snd (set_requested_speed self v' t') =
          t' @ WriteBlock (i2c_address self) 0x14 [] # cs"
    by auto
qed

theorem set_requested_speed_gate_witness:
  "set_requested_speed (stub_session True 1) 100 [] =
     (Inr False, [WriteBlock 0x0a 0x14 [], ReadBlock 0x0a 0x14 1])"
  using set_requested_speed_gate [of "stub_session True 1" "[]" "Some 1" 100]
  by (simp add: read_driver_mode_def read_value_bus MODE_AUTO_def)

text \<open>
  The claim as stated, that no transport write call occurs, fails on a device in
  \<open>MODE_DEFAULT\<close>: the operation returns False, and the mode query has called
  \<open>write_i2c_block_data\<close> for register 0x14.
\<close>

theorem set_requested_speed_write_counterexample:
  "fst (read_driver_mode (stub_session True 1) []) = Inr (Some MODE_DEFAULT) \<and>
   fst (set_requested_speed (stub_session True 1) 100 []) = Inr False \<and>
   WriteBlock 0x0a 0x14 [] \<in> set (snd (set_requested_speed (stub_session True 1) 100 []))"
  by (simp add: set_requested_speed_def read_driver_mode_def read_value_bus
      MODE_AUTO_def MODE_DEFAULT_def)

subsection \<open>Position payload\<close>

lemma set_position_while_pads:
  "set_position_while buffer = buffer @ replicate (4 - length buffer) 0"
proof (induction buffer rule: set_position_while.induct)
  case (1 buffer)
  show ?case
  proof (cases "length buffer < 4")
    case True
    then have "4 - length buffer = Suc (4 - length (buffer @ [0]))"
      by simp
    with True "1.IH" show ?thesis
      by (simp add: set_position_while.simps [of buffer] replicate_append_same)
  next
    case False
    then show ?thesis
      by (simp add: set_position_while.simps [of buffer])
  qed
qed

lemma length_convert_to_byte_buffer: "length (convert_to_byte_buffer v) \<le> 4"
  by (simp add: convert_to_byte_buffer_def Let_def)

lemma div_mod_bytes:
  fixes v :: int
  shows "v mod 65536 div 256 = v div 256 mod 256"
    and "v mod 16777216 div 65536 = v div 65536 mod 256"
proof -
  have "v mod 65536 = 256 * (v div 256 mod 256) + v mod 256"
    using zmod_zmult2_eq [of 256 v 256] by simp
  then show "v mod 65536 div 256 = v div 256 mod 256"
    by simp
  have "v mod 16777216 = 65536 * (v div 65536 mod 256) + v mod 65536"
    using zmod_zmult2_eq [of 256 v 65536] by simp
  then show "v mod 16777216 div 65536 = v div 65536 mod 256"
    by simp
qed

text \<open>
  For a value in [0, 4294967295] the reversed and padded encoding is the 4-byte
  little-endian representation of the value.
\<close>

lemma position_payload_little_endian:
  assumes "0 \<le> v" "v \<le> 4294967295"
  shows "rev (convert_to_byte_buffer v) @ replicate (4 - length (convert_to_byte_buffer v)) 0 =
           [v mod 256, v div 256 mod 256, v div 65536 mod 256, v div 16777216]"
proof -
  consider "v \<le> 255" | "255 < v" "v \<le> 65535" | "65535 < v"
    by linarith
  then show ?thesis
  proof cases
    case 1
    with assms have "v div 256 = 0" "v div 65536 = 0" "v div 16777216 = 0" "v mod 256 = v"
      by simp_all
    with 1 show ?thesis
      by (simp add: convert_to_byte_buffer_def numeral_eq_Suc)
  next
    case 2
    with assms have "v div 65536 = 0" "v div 16777216 = 0" "v div 256 mod 256 = v div 256"
      by simp_all
    with 2 show ?thesis
      by (simp add: convert_to_byte_buffer_def bit_arith numeral_eq_Suc)
  next
    case 3
    with assms show ?thesis
      by (simp add: convert_to_byte_buffer_def bit_arith div_mod_bytes)
  qed
qed

text \<open>
  C8. When the mode gate of \<open>set_position(v)\<close> passes (the mode query returns
  \<open>MODE_POSITION_CONT\<close> or \<open>MODE_BINX_BUTTONS\<close>), the only call after the mode query is
  a write to register 0x50. Its payload is the encoding of \<open>v\<close> in reverse byte order
  followed by zeros up to 4 elements, and it has exactly 4 elements. This holds for every
  \<open>v\<close>, in particular for every \<open>v\<close> whose encoding has at most 4 bytes. For \<open>v\<close> in
  [0, 4294967295] the payload is the 4-byte little-endian representation of \<open>v\<close>.
\<close>

theorem set_position_payload:
  assumes "fst (read_driver_mode self t) = Inr (Some cur_mode)"
    and "cur_mode = MODE_POSITION_CONT \<or> cur_mode = MODE_BINX_BUTTONS"
  shows "snd (set_position self v t) =
           snd (read_driver_mode self t) @
             [WriteBlock (i2c_address self) 0x50
                (rev (convert_to_byte_buffer v) @
                 replicate (4 - length (convert_to_byte_buffer v)) 0)] \<and>
         length (rev (convert_to_byte_buffer v) @
                 replicate (4 - length (convert_to_byte_buffer v)) 0) = 4 \<and>
         (0 \<le> v \<and> v \<le> 4294967295 \<longrightarrow>
            rev (convert_to_byte_buffer v) @
              replicate (4 - length (convert_to_byte_buffer v)) 0 =
            [v mod 256, v div 256 mod 256, v div 65536 mod 256, v div 16777216])"
proof (intro conjI impI)
  from assms(1) obtain b where bus: "i2c_bus self = Some b"
    using read_value_Some_bus [of self "0x14" t cur_mode]
    by (auto simp: read_driver_mode_def)
  obtain t1 where q: "read_driver_mode self t = (Inr (Some cur_mode), t1)"
    using assms(1) by (cases "read_driver_mode self t") simp
  from assms(2) have gate:
    "\<not> (Some cur_mode \<noteq> Some MODE_POSITION_CONT \<and> Some cur_mode \<noteq> Some MODE_BINX_BUTTONS)"
    by auto
  show "snd (set_position self v t) =
          snd (read_driver_mode self t) @
            [WriteBlock (i2c_address self) 0x50
               (rev (convert_to_byte_buffer v) @
                replicate (4 - length (convert_to_byte_buffer v)) 0)]"
    using gate bus
    by (simp add: set_position_def q set_position_while_pads write_data_bus Let_def
        del: not_Some_eq)
  from length_convert_to_byte_buffer [of v]
  show "length (rev (convert_to_byte_buffer v) @
                replicate (4 - length (convert_to_byte_buffer v)) 0) = 4"
    by simp
next
  assume "0 \<le> v \<and> v \<le> 4294967295"
  then show "rev (convert_to_byte_buffer v) @
               replicate (4 - length (convert_to_byte_buffer v)) 0 =
             [v mod 256, v div 256 mod 256, v div 65536 mod 256, v div 16777216]"
    by (simp add: position_payload_little_endian)
qed

theorem set_position_payload_witness:
  "set_position (stub_session True 4) 1000 [] =
     (Inr True, [WriteBlock 0x0a 0x14 [], ReadBlock 0x0a 0x14 1,
                 WriteBlock 0x0a 0x50 [232, 3, 0, 0]])"
proof -
  have mode: "read_driver_mode (stub_session True 4) [] =
                (Inr (Some 4), [WriteBlock 0x0a 0x14 [], ReadBlock 0x0a 0x14 1])"
    by (simp add: read_driver_mode_def read_value_bus)
  have enc: "convert_to_byte_buffer 1000 = [3, 232]"
    by (simp add: convert_to_byte_buffer_def bit_arith)
  have "fst (set_position (stub_session True 4) 1000 []) = Inr True"
    by (simp add: set_position_def mode consts_defs enc set_position_while_pads
        write_data_bus numeral_eq_Suc)
  moreover have "snd (set_position (stub_session True 4) 1000 []) =
     [WriteBlock 0x0a 0x14 [], ReadBlock 0x0a 0x14 1, WriteBlock 0x0a 0x50 [232, 3, 0, 0]]"
    using set_position_payload [of "stub_session True 4" "[]" 4 1000]
    by (simp add: mode consts_defs enc numeral_eq_Suc)
  ultimately show ?thesis
    by (simp add: prod_eq_iff)
qed

subsection \<open>Speed payload\<close>

text \<open>
  \<open>set_speed\<close> for a value in [0, 65535]: one write, whose payload has two elements,
  the low byte first. A value up to 255 is encoded as one byte, to which the code appends
  a zero, which is the high byte.
\<close>

lemma set_speed_bus:
  assumes "i2c_bus self = Some b" "0x01 \<le> register" "register \<le> 0x60"
    and "0 \<le> v" "v \<le> 65535"
  shows "set_speed self register v t =
           (write_i2c_block_data b t (i2c_address self) register [v AND 0xff, drop_bit 8 v] = None,
            t @ [WriteBlock (i2c_address self) register [v AND 0xff, drop_bit 8 v]])"
proof (cases "v \<le> 255")
  case True
  with assms(4) have "v mod 256 = v" "v div 256 = 0"
    by simp_all
  with True assms(1-3) show ?thesis
    by (simp add: set_speed_def convert_to_byte_buffer_def write_data_bus bit_arith Let_def)
next
  case False
  with assms show ?thesis
    by (simp add: set_speed_def convert_to_byte_buffer_def write_data_bus Let_def)
qed

text \<open>
  C2 (amended). For every in-range speed-class value \<open>v\<close>, on a session with a bus, each
  of \<open>set_max_speed\<close>, \<open>set_acceleration\<close>, \<open>set_deceleration\<close> makes one transport call,
  a write to its register (0x51, 0x52, 0x53) with the two-byte payload
  \<open>[v & 0xFF, v >> 8]\<close>, least-significant byte first; \<open>set_requested_speed\<close> does the
  same on register 0x54 after a mode query that returned \<open>MODE_AUTO\<close>. When the encoding
  of \<open>v\<close> is one byte wide (\<open>v \<le> 255\<close>) this payload is \<open>[v, 0]\<close>: the byte followed
  by a zero byte, not the single byte.
\<close>

theorem speed_setters_payload:
  assumes "i2c_bus self = Some b" "0 \<le> v"
  shows "(v \<le> MAX_SPEED \<longrightarrow>
            set_max_speed self v t =
              (write_i2c_block_data b t (i2c_address self) 0x51 [v AND 0xff, drop_bit 8 v] = None,
               t @ [WriteBlock (i2c_address self) 0x51 [v AND 0xff, drop_bit 8 v]])) \<and>
         (v \<le> MAX_ACCELERATION \<longrightarrow>
            set_acceleration self v t =
              (write_i2c_block_data b t (i2c_address self) 0x52 [v AND 0xff, drop_bit 8 v] = None,
               t @ [WriteBlock (i2c_address self) 0x52 [v AND 0xff, drop_bit 8 v]])) \<and>
         (v \<le> MAX_ACCELERATION \<longrightarrow>
            set_deceleration self v t =
              (write_i2c_block_data b t (i2c_address self) 0x53 [v AND 0xff, drop_bit 8 v] = None,
               t @ [WriteBlock (i2c_address self) 0x53 [v AND 0xff, drop_bit 8 v]])) \<and>
         (v \<le> MAX_SPEED \<and> fst (read_driver_mode self t) = Inr (Some MODE_AUTO) \<longrightarrow>
            snd (set_requested_speed self v t) =
              snd (read_driver_mode self t) @
                [WriteBlock (i2c_address self) 0x54 [v AND 0xff, drop_bit 8 v]]) \<and>
         (v \<le> 255 \<longrightarrow> [v AND 0xff, drop_bit 8 v] = [v, 0])"
proof (intro conjI impI)
  assume "v \<le> MAX_SPEED"
  with assms show "set_max_speed self v t =
      (write_i2c_block_data b t (i2c_address self) 0x51 [v AND 0xff, drop_bit 8 v] = None,
       t @ [WriteBlock (i2c_address self) 0x51 [v AND 0xff, drop_bit 8 v]])"
    by (simp add: set_max_speed_def MAX_SPEED_def set_speed_bus)
next
  assume "v \<le> MAX_ACCELERATION"
  with assms show "set_acceleration self v t =
      (write_i2c_block_data b t (i2c_address self) 0x52 [v AND 0xff, drop_bit 8 v] = None,
       t @ [WriteBlock (i2c_address self) 0x52 [v AND 0xff, drop_bit 8 v]])"
    by (simp add: set_acceleration_def MAX_ACCELERATION_def set_speed_bus)
next
  assume "v \<le> MAX_ACCELERATION"
  with assms show "set_deceleration self v t =
      (write_i2c_block_data b t (i2c_address self) 0x53 [v AND 0xff, drop_bit 8 v] = None,
       t @ [WriteBlock (i2c_address self) 0x53 [v AND 0xff, drop_bit 8 v]])"
    by (simp add: set_deceleration_def MAX_ACCELERATION_def set_speed_bus)
next
  assume a: "v \<le> MAX_SPEED \<and> fst (read_driver_mode self t) = Inr (Some MODE_AUTO)"
  then obtain t1 where q: "read_driver_mode self t = (Inr (Some MODE_AUTO), t1)"
    by (cases "read_driver_mode self t") simp
  from a assms show "snd (set_requested_speed self v t) =
      snd (read_driver_mode self t) @
        [WriteBlock (i2c_address self) 0x54 [v AND 0xff, drop_bit 8 v]]"
    by (simp add: set_requested_speed_def q MAX_SPEED_def set_speed_bus)
next
  assume "v \<le> 255"
  with assms(2) have "v mod 256 = v" "v div 256 = 0"
    by simp_all
  then show "[v AND 0xff, drop_bit 8 v] = [v, 0]"
    by (simp add: bit_arith)
qed

theorem speed_setters_payload_witness:
  "set_max_speed (stub_session True 6) 5 [] = (True, [WriteBlock 0x0a 0x51 [5, 0]]) \<and>
   set_acceleration (stub_session True 6) 1000 [] = (True, [WriteBlock 0x0a 0x52 [232, 3]]) \<and>
   set_deceleration (stub_session True 6) 1000 [] = (True, [WriteBlock 0x0a 0x53 [232, 3]]) \<and>
   snd (set_requested_speed (stub_session True 6) 1000 []) =
     [WriteBlock 0x0a 0x14 [], ReadBlock 0x0a 0x14 1, WriteBlock 0x0a 0x54 [232, 3]]"
  using speed_setters_payload [of "stub_session True 6" "stub_bus True 6" 5 "[]"]
    speed_setters_payload [of "stub_session True 6" "stub_bus True 6" 1000 "[]"]
  by (simp add: consts_defs bit_arith read_driver_mode_def read_value_bus)

text \<open>
  The claim as stated, a one-byte payload for a one-byte encoding, fails at \<open>v = 5\<close>:
  the encoding is \<open>[5]\<close> and the payload written is \<open>[5, 0]\<close>.
\<close>

theorem set_speed_single_byte_counterexample:
  "convert_to_byte_buffer 5 = [5] \<and>
   snd (set_max_speed (stub_session True 6) 5 []) = [WriteBlock 0x0a 0x51 [5, 0]] \<and>
   snd (set_max_speed (stub_session True 6) 5 []) \<noteq> [WriteBlock 0x0a 0x51 [5]]"
  by (simp add: set_max_speed_def set_speed_def convert_to_byte_buffer_def MAX_SPEED_def
      write_data_bus Let_def)

subsection \<open>Range rejection\<close>

text \<open>
  A current setter given NaN: both comparisons of the range guard are False, and
  \<open>int(123 * value)\<close> raises ValueError, before any call on the bus.
\<close>

lemma current_setters_nan:
  "set_current_full_scale rnd self NaN t = (Inl ValueError, t)"
  "set_current_idle rnd self NaN t = (Inl ValueError, t)"
  "set_current_overheat rnd self NaN t = (Inl ValueError, t)"
  by (simp_all add: set_current_full_scale_def set_current_idle_def set_current_overheat_def
      set_current_def)

text \<open>
  C7 (amended). Each of the range-checked write-only setters returns False without any
  transport call for every input that its range check compares outside its domain: the
  three current setters for every float below 0.0 or above 6.0 (every finite value
  outside [0.0, 6.0] and both infinities; NaN compares neither below nor above, and
  what the current setters do with it is not part of this statement),
  \<open>set_step_mode\<close> outside [0, 8], \<open>set_temperature_limit\<close> outside
  [0, 120], \<open>set_max_speed\<close> outside [0, 60000], \<open>set_acceleration\<close> and
  \<open>set_deceleration\<close> outside [0, 50000], \<open>set_run_sleep_mode\<close> for a value that is
  neither \<open>DRIVER_RUN\<close> nor \<open>DRIVER_SLEEP\<close>, and \<open>set_address\<close> for two different
  addresses of which one is outside [0x01, 0x7F]. In particular
  \<open>set_acceleration(50001)\<close> and \<open>set_temperature_limit(121)\<close> return False without
  any transport call. \<open>set_address\<close> with two equal addresses is not range-checked: it
  returns True without any transport call.
\<close>

theorem range_rejection:
  "(amps < 0 \<or> amps > 6 \<longrightarrow>
      set_current_full_scale rnd self (Finite amps) t = (Inr False, t) \<and>
      set_current_idle rnd self (Finite amps) t = (Inr False, t) \<and>
      set_current_overheat rnd self (Finite amps) t = (Inr False, t)) \<and>
   set_current_full_scale rnd self PosInf t = (Inr False, t) \<and>
   set_current_idle rnd self PosInf t = (Inr False, t) \<and>
   set_current_overheat rnd self PosInf t = (Inr False, t) \<and>
   set_current_full_scale rnd self NegInf t = (Inr False, t) \<and>
   set_current_idle rnd self NegInf t = (Inr False, t) \<and>
   set_current_overheat rnd self NegInf t = (Inr False, t) \<and>
   (v < 0 \<or> v > 8 \<longrightarrow> set_step_mode self v t = (False, t)) \<and>
   (v < 0 \<or> v > 120 \<longrightarrow> set_temperature_limit self v t = (False, t)) \<and>
   (v < 0 \<or> v > 60000 \<longrightarrow> set_max_speed self v t = (False, t)) \<and>
   (v < 0 \<or> v > 50000 \<longrightarrow>
      set_acceleration self v t = (False, t) \<and> set_deceleration self v t = (False, t)) \<and>
   (v \<noteq> DRIVER_RUN \<and> v \<noteq> DRIVER_SLEEP \<longrightarrow> set_run_sleep_mode self v t = (False, t)) \<and>
   (cur \<noteq> new \<and> (cur < 0x01 \<or> cur > 0x7f \<or> new < 0x01 \<or> new > 0x7f) \<longrightarrow>
      set_address self cur new t = (False, t)) \<and>
   set_address self cur cur t = (True, t) \<and>
   set_acceleration self 50001 t = (False, t) \<and>
   set_temperature_limit self 121 t = (False, t)"
  by (auto simp: set_current_full_scale_def set_current_idle_def set_current_overheat_def
      set_step_mode_def set_temperature_limit_def set_max_speed_def set_acceleration_def
      set_deceleration_def set_run_sleep_mode_def set_address_def consts_defs)

theorem range_rejection_witness:
  "set_current_full_scale (\<lambda>x. x) (stub_session True 1) (Finite 7) [] = (Inr False, []) \<and>
   set_current_idle (\<lambda>x. x) (stub_session True 1) (Finite 7) [] = (Inr False, []) \<and>
   set_current_overheat (\<lambda>x. x) (stub_session True 1) (Finite 7) [] = (Inr False, []) \<and>
   set_current_full_scale (\<lambda>x. x) (stub_session True 1) PosInf [] = (Inr False, []) \<and>
   set_current_idle (\<lambda>x. x) (stub_session True 1) NegInf [] = (Inr False, []) \<and>
   set_step_mode (stub_session True 1) 60001 [] = (False, []) \<and>
   set_temperature_limit (stub_session True 1) 60001 [] = (False, []) \<and>
   set_max_speed (stub_session True 1) 60001 [] = (False, []) \<and>
   set_acceleration (stub_session True 1) 60001 [] = (False, []) \<and>
   set_deceleration (stub_session True 1) 60001 [] = (False, []) \<and>
   set_run_sleep_mode (stub_session True 1) 60001 [] = (False, []) \<and>
   set_address (stub_session True 1) 0 5 [] = (False, []) \<and>
   set_acceleration (stub_session True 1) 50001 [] = (False, []) \<and>
   set_temperature_limit (stub_session True 1) 121 [] = (False, [])"
  using range_rejection [of 7 "\<lambda>x. x" "stub_session True 1" "[]" 60001 0 5]
  by (simp add: consts_defs)

text \<open>
  The claim as stated, for every write-only setter and every input outside its domain,
  fails for \<open>set_address(0, 0)\<close>: 0 is outside [0x01, 0x7F] and the result is True.
\<close>

theorem set_address_out_of_range_counterexample:
  "(0::int) < 0x01 \<and> set_address (stub_session True 1) 0 0 [] = (True, [])"
  by (simp add: set_address_def)

subsection \<open>A session without a bus\<close>

text \<open>
  With \<open>i2c_bus = None\<close> every operation stops in \<open>write_data\<close> or \<open>read_data\<close> before
  the bus is called: the list of calls is returned unchanged.
\<close>

lemma no_bus_plain_writes:
  assumes "i2c_bus self = None"
  shows "set_run_sleep_mode self v t = (False, t)"
    and "set_driver_mode self v t = (False, t)"
    and "set_pwm_motors self f1 f2 d1 d2 d3 d4 t = (False, t)"
    and "set_step_mode self v t = (False, t)"
    and "set_temperature_limit self v t = (False, t)"
    and "reset_faults self t = (False, t)"
    and "write_settings_to_eeprom self t = (False, t)"
    and "set_zero self t = (False, t)"
    and "stop self t = (False, t)"
    and "system_reset self t = (False, t)"
    and "cur \<noteq> new \<Longrightarrow> set_address self cur new t = (False, t)"
  using assms
  by (simp_all add: set_run_sleep_mode_def set_driver_mode_def set_pwm_motors_def
      set_step_mode_def set_temperature_limit_def reset_faults_def
      write_settings_to_eeprom_def set_zero_def stop_def system_reset_def set_address_def
      write_data_no_bus)

lemma no_bus_set_speed:
  assumes "i2c_bus self = None"
  shows "set_speed self register v t = (False, t)"
    and "set_max_speed self v t = (False, t)"
    and "set_acceleration self v t = (False, t)"
    and "set_deceleration self v t = (False, t)"
  using assms
  by (simp_all add: set_speed_def set_max_speed_def set_acceleration_def set_deceleration_def
      write_data_no_bus Let_def)

text \<open>
  The current setters: no call on the bus for any value; the result is False whenever
  \<open>int(123 * value)\<close> returns, which for the three public setters is every value but
  NaN (the rounding being monotone and keeping 0 and 738).
\<close>

lemma no_bus_set_current_calls:
  assumes "i2c_bus self = None"
  shows "snd (set_current rnd self register amps t) = t"
    and "snd (set_current_full_scale rnd self amps t) = t"
    and "snd (set_current_idle rnd self amps t) = t"
    and "snd (set_current_overheat rnd self amps t) = t"
  using assms
  by (simp_all add: set_current_def set_current_full_scale_def set_current_idle_def
      set_current_overheat_def write_data_no_bus Let_def split: prod.split sum.split)

lemma no_bus_set_current:
  assumes "i2c_bus self = None" "py_int (int_times_float rnd 123 amps) = Inr tq"
  shows "set_current rnd self register amps t = (Inr False, t)"
  using assms
  by (simp add: set_current_def write_data_no_bus Let_def split: prod.split)

lemma no_bus_set_current_finite:
  assumes "i2c_bus self = None" "\<bar>rnd (123 * x)\<bar> \<le> FLOAT_MAX"
  shows "set_current rnd self register (Finite x) t = (Inr False, t)"
proof -
  from assms(2) have "fl rnd (123 * x) = Finite (rnd (123 * x))"
    by (auto simp: fl_def)
  then show ?thesis
    by (intro no_bus_set_current [OF assms(1)]) simp
qed

lemma in_range_product_int:
  assumes "mono rnd" "rnd 0 = 0" "rnd 738 = 738"
    and "\<not> (float_lt amps 0.0 \<or> float_gt amps MAX_CURRENT)" "amps \<noteq> NaN"
  shows "\<exists>tq. py_int (int_times_float rnd 123 amps) = Inr tq"
proof (cases amps)
  case (Finite x)
  with assms(4) have "0 \<le> x" "x \<le> 6"
    by (simp_all add: MAX_CURRENT_def)
  from rounded_product_bounds [OF this assms(1-3)]
  have "fl rnd (123 * x) = Finite (rnd (123 * x))"
    by (simp add: fl_finite)
  with Finite show ?thesis
    by simp
qed (use assms(4,5) in simp_all)

lemma no_bus_current_setters:
  assumes "i2c_bus self = None"
    and "mono rnd" "rnd 0 = 0" "rnd 738 = 738" "amps \<noteq> NaN"
  shows "set_current_full_scale rnd self amps t = (Inr False, t)"
    and "set_current_idle rnd self amps t = (Inr False, t)"
    and "set_current_overheat rnd self amps t = (Inr False, t)"
proof -
  show "set_current_full_scale rnd self amps t = (Inr False, t)"
  proof (cases "float_lt amps 0.0 \<or> float_gt amps MAX_CURRENT")
    case True
    then show ?thesis
      by (simp add: set_current_full_scale_def)
  next
    case False
    from in_range_product_int [OF assms(2-4) False assms(5)] False show ?thesis
      by (auto simp: set_current_full_scale_def no_bus_set_current [OF assms(1)])
  qed
  show "set_current_idle rnd self amps t = (Inr False, t)"
  proof (cases "float_lt amps 0.0 \<or> float_gt amps MAX_CURRENT")
    case True
    then show ?thesis
      by (simp add: set_current_idle_def)
  next
    case False
    from in_range_product_int [OF assms(2-4) False assms(5)] False show ?thesis
      by (auto simp: set_current_idle_def no_bus_set_current [OF assms(1)])
  qed
  show "set_current_overheat rnd self amps t = (Inr False, t)"
  proof (cases "float_lt amps 0.0 \<or> float_gt amps MAX_CURRENT")
    case True
    then show ?thesis
      by (simp add: set_current_overheat_def)
  next
    case False
    from in_range_product_int [OF assms(2-4) False assms(5)] False show ?thesis
      by (auto simp: set_current_overheat_def no_bus_set_current [OF assms(1)])
  qed
qed

lemma no_bus_read_value:
  assumes "i2c_bus self = None"
  shows "read_pin_statuses self t = (Inr None, t)"
    and "read_driver_status self t = (Inr None, t)"
    and "read_driver_mode self t = (Inr None, t)"
    and "read_temperature_limit self t = (Inr None, t)"
    and "read_faults self t = (Inr None, t)"
    and "read_auto_run_invert_direction_status self t = (Inr None, t)"
  using assms
  by (simp_all add: read_pin_statuses_def read_driver_status_def read_driver_mode_def
      read_temperature_limit_def read_faults_def read_auto_run_invert_direction_status_def
      read_value_no_bus)

lemma no_bus_reads:
  assumes "i2c_bus self = None"
  shows "read_hw_fw_info self t = (None, t)"
    and "read_voltage rnd self t = (Inr None, t)"
    and "read_temperature rnd self t = (Inr None, t)"
    and "read_current rnd self register t = (Inr None, t)"
    and "read_current_full_scale rnd self t = (Inr None, t)"
    and "read_current_idle rnd self t = (Inr None, t)"
    and "read_current_overheat rnd self t = (Inr None, t)"
    and "read_position self t = (Inr None, t)"
    and "read_speed self register t = (Inr None, t)"
    and "read_max_speed self t = (Inr None, t)"
    and "read_acceleration self t = (Inr None, t)"
    and "read_deceleration self t = (Inr None, t)"
    and "read_current_speed self t = (Inr None, t)"
    and "read_requested_speed self t = (Inr None, t)"
  using assms
  by (simp_all add: read_hw_fw_info_def read_voltage_def read_temperature_def
      read_current_def read_current_full_scale_def read_current_idle_def
      read_current_overheat_def read_position_def read_speed_def read_max_speed_def
      read_acceleration_def read_deceleration_def read_current_speed_def
      read_requested_speed_def write_data_no_bus)

lemma no_bus_gated:
  assumes "i2c_bus self = None"
  shows "set_position self v t = (Inr False, t)"
    and "set_requested_speed self v t = (Inr False, t)"
    and "set_invert_direction self v t = (Inr False, t)"
    and "loopback_read self t = (Inr False, t)"
  using assms
  by (simp_all add: set_position_def set_requested_speed_def set_invert_direction_def
      loopback_read_def loopback_read_try_def no_bus_read_value write_data_no_bus Let_def)

text \<open>
  \<open>read_step_mode\<close> on such a session makes no call either, but it does not return: the
  \<open>None\<close> of \<open>read_value\<close> reaches \<open>buffer & 0x0f\<close>.
\<close>

lemma no_bus_read_step_mode:
  "i2c_bus self = None \<Longrightarrow> read_step_mode self t = (Inl TypeError, t)"
  by (simp add: read_step_mode_def read_value_no_bus)

text \<open>Construction never raises, whatever the bus does.\<close>

lemma PoStep256_init_returns: "\<exists>self. fst (PoStep256_init smbus address t) = Inr self"
  by (cases smbus; cases "loopback_read \<lparr>i2c_bus = Some (projr smbus), i2c_address = address\<rparr> t")
    (auto simp: PoStep256_init_def Let_def split: sum.split)

lemmas no_bus_operations =
  write_data_no_bus read_data_no_bus read_value_no_bus no_bus_plain_writes no_bus_set_speed
  no_bus_set_current_calls no_bus_read_value no_bus_reads no_bus_gated

text \<open>
  C9 (amended). When the loopback self-test of the construction fails, \<open>__init__\<close> does
  not raise: it returns the session with \<open>i2c_bus = None\<close>, having made no transport
  call beyond those of the self-test. On that session no operation makes a transport
  call, and every operation returns its failure result, False or \<open>None\<close>, with these
  exceptions: \<open>set_address\<close> with two equal addresses returns True; of
  \<open>read_step_mode\<close> only the absence of a transport call is stated; and of the current
  setters the result False is stated for every value but NaN (for \<open>set_current\<close>
  itself, for every finite value whose product with 123 is a finite float), while the
  absence of a transport call is stated for every value. The rounding of the float
  product is any monotone rounding that keeps 0 and 738.
\<close>

theorem failed_construction_fails_fast:
  assumes "fst (loopback_read \<lparr>i2c_bus = Some b, i2c_address = address\<rparr> t0) = Inr False"
  shows "\<exists>self.
     fst (PoStep256_init (Inr b) address t0) = Inr self \<and>
     snd (PoStep256_init (Inr b) address t0) =
       snd (loopback_read \<lparr>i2c_bus = Some b, i2c_address = address\<rparr> t0) \<and>
     i2c_bus self = None \<and>
     (\<forall>t register buffer len v amps x rnd cur new f1 f2 d1 d2 d3 d4.
        write_data self register buffer t = (False, t) \<and>
        read_data self register len t = (None, t) \<and>
        read_value self register t = (Inr None, t) \<and>
        loopback_read self t = (Inr False, t) \<and>
        set_run_sleep_mode self v t = (False, t) \<and>
        (cur \<noteq> new \<longrightarrow> set_address self cur new t = (False, t)) \<and>
        set_address self cur cur t = (True, t) \<and>
        set_driver_mode self v t = (False, t) \<and>
        set_pwm_motors self f1 f2 d1 d2 d3 d4 t = (False, t) \<and>
        read_hw_fw_info self t = (None, t) \<and>
        read_voltage rnd self t = (Inr None, t) \<and>
        read_temperature rnd self t = (Inr None, t) \<and>
        read_pin_statuses self t = (Inr None, t) \<and>
        read_driver_status self t = (Inr None, t) \<and>
        read_driver_mode self t = (Inr None, t) \<and>
        read_current rnd self register t = (Inr None, t) \<and>
        read_current_full_scale rnd self t = (Inr None, t) \<and>
        read_current_idle rnd self t = (Inr None, t) \<and>
        read_current_overheat rnd self t = (Inr None, t) \<and>
        snd (read_step_mode self t) = t \<and>
        read_temperature_limit self t = (Inr None, t) \<and>
        read_faults self t = (Inr None, t) \<and>
        snd (set_current rnd self register amps t) = t \<and>
        snd (set_current_full_scale rnd self amps t) = t \<and>
        snd (set_current_idle rnd self amps t) = t \<and>
        snd (set_current_overheat rnd self amps t) = t \<and>
        (\<bar>rnd (123 * x)\<bar> \<le> FLOAT_MAX \<longrightarrow>
           set_current rnd self register (Finite x) t = (Inr False, t)) \<and>
        (mono rnd \<and> rnd 0 = 0 \<and> rnd 738 = 738 \<and> amps \<noteq> NaN \<longrightarrow>
           set_current_full_scale rnd self amps t = (Inr False, t) \<and>
           set_current_idle rnd self amps t = (Inr False, t) \<and>
           set_current_overheat rnd self amps t = (Inr False, t)) \<and>
        set_step_mode self v t = (False, t) \<and>
        set_temperature_limit self v t = (False, t) \<and>
        reset_faults self t = (False, t) \<and>
        write_settings_to_eeprom self t = (False, t) \<and>
        read_position self t = (Inr None, t) \<and>
        read_speed self register t = (Inr None, t) \<and>
        read_max_speed self t = (Inr None, t) \<and>
        read_acceleration self t = (Inr None, t) \<and>
        read_deceleration self t = (Inr None, t) \<and>
        read_current_speed self t = (Inr None, t) \<and>
        read_requested_speed self t = (Inr None, t) \<and>
        read_auto_run_invert_direction_status self t = (Inr None, t) \<and>
        set_position self v t = (Inr False, t) \<and>
        set_speed self register v t = (False, t) \<and>
        set_max_speed self v t = (False, t) \<and>
        set_acceleration self v t = (False, t) \<and>
        set_deceleration self v t = (False, t) \<and>
        set_requested_speed self v t = (Inr False, t) \<and>
        set_invert_direction self v t = (Inr False, t) \<and>
        set_zero self t = (False, t) \<and>
        stop self t = (False, t) \<and>
        system_reset self t = (False, t))"
proof -
  define self where "self = \<lparr>i2c_bus = None, i2c_address = address\<rparr>"
  have none: "i2c_bus self = None"
    by (simp add: self_def)
  obtain t1 where lb: "loopback_read \<lparr>i2c_bus = Some b, i2c_address = address\<rparr> t0 = (Inr False, t1)"
    using assms by (cases "loopback_read \<lparr>i2c_bus = Some b, i2c_address = address\<rparr> t0") simp
  have init: "PoStep256_init (Inr b) address t0 = (Inr self, t1)"
    by (simp add: PoStep256_init_def lb self_def)
  have same: "set_address self cur cur t = (True, t)" for cur t
    by (simp add: set_address_def)
  have step: "snd (read_step_mode self t) = t" for t
    by (simp add: no_bus_read_step_mode [OF none])
  show ?thesis
  proof (intro exI [of _ self] conjI allI impI)
    show "fst (PoStep256_init (Inr b) address t0) = Inr self"
      by (simp add: init)
    show "snd (PoStep256_init (Inr b) address t0) =
            snd (loopback_read \<lparr>i2c_bus = Some b, i2c_address = address\<rparr> t0)"
      by (simp add: init lb)
  qed (simp_all add: none same step no_bus_operations [OF none]
      no_bus_set_current_finite [OF none] no_bus_current_setters [OF none])
qed

theorem failed_construction_fails_fast_witness:
  "i2c_bus (constructed (PoStep256_init (Inr (stub_bus False 1)) 0x0a [])) = None \<and>
   stop (constructed (PoStep256_init (Inr (stub_bus False 1)) 0x0a [])) [] = (False, []) \<and>
   read_driver_mode (constructed (PoStep256_init (Inr (stub_bus False 1)) 0x0a [])) [] =
     (Inr None, []) \<and>
   set_requested_speed (constructed (PoStep256_init (Inr (stub_bus False 1)) 0x0a [])) 100 [] =
     (Inr False, []) \<and>
   set_current_full_scale (\<lambda>x. x)
       (constructed (PoStep256_init (Inr (stub_bus False 1)) 0x0a [])) (Finite 3) [] =
     (Inr False, [])"
proof -
  have fails: "fst (loopback_read \<lparr>i2c_bus = Some (stub_bus False 1), i2c_address = 0x0a\<rparr> []) =
                 Inr False"
    by (simp add: loopback_read_def loopback_read_try_def write_data_bus)
  have rounding: "mono (\<lambda>x::real. x) \<and> (0::real) = 0 \<and> (738::real) = 738 \<and> Finite 3 \<noteq> NaN"
    by (simp add: mono_def)
  from failed_construction_fails_fast [OF fails] rounding
  show ?thesis
    by (auto simp: constructed_def)
qed

text \<open>
  The claim as stated, that every operation on such a session returns its failure
  result, fails for \<open>set_address(5, 5)\<close>: on the session left by a construction whose
  self-test failed it returns True.
\<close>

theorem failed_construction_set_address_counterexample:
  "fst (loopback_read \<lparr>i2c_bus = Some (stub_bus False 1), i2c_address = 0x0a\<rparr> []) = Inr False \<and>
   i2c_bus (constructed (PoStep256_init (Inr (stub_bus False 1)) 0x0a [])) = None \<and>
   fst (set_address (constructed (PoStep256_init (Inr (stub_bus False 1)) 0x0a [])) 5 5 []) = True"
  by (simp add: loopback_read_def loopback_read_try_def write_data_bus PoStep256_init_def
      constructed_def set_address_def)

end
